theory Spec2Isabelle
  imports Main
begin

section \<open>Python values, exceptions and dates\<close>

text \<open>
  The embedding follows \<^verbatim>\<open>src/psx/core.py\<close>.  An exception is a value; a
  computation that may raise returns \<open>exn + 'a\<close> with \<open>Inl\<close> for the raised exception.
  The type \<open>exn\<close> stands for instances of Python's \<^verbatim>\<open>Exception\<close>, which is what
  \<^verbatim>\<open>except Exception\<close> catches: the five builtin classes the code can meet, and
  \<open>OtherException cls msg\<close> for an instance of any further class \<open>cls\<close> that is not a
  \<^verbatim>\<open>PSXRequestError\<close>.
\<close>

text \<open>
  Modelled from the spec: the class \<^verbatim>\<open>PSXRequestError\<close> is declared in
  \<^verbatim>\<open>psx/exceptions.py\<close>, which is not among the sources.  It is the spec's
  domain-specific request error: an exception of its own kind that carries a message.
\<close>

datatype exn =
    PSXRequestError string
  | ValueError string
  | KeyError string
  | TypeError string
  | AttributeError string
  | OverflowError string
  | OtherException string string

definition quote :: string where
  "quote = [CHR 0x27]"

definition newline :: string where
  "newline = [CHR 0x0A]"

text \<open>\<^verbatim>\<open>str(e)\<close>: the message, and for a \<^verbatim>\<open>KeyError\<close> the repr of the missing key.\<close>

fun str_exn :: "exn \<Rightarrow> string" where
  "str_exn (PSXRequestError m) = m"
| "str_exn (ValueError m) = m"
| "str_exn (KeyError k) = quote @ k @ quote"
| "str_exn (TypeError m) = m"
| "str_exn (AttributeError m) = m"
| "str_exn (OverflowError m) = m"
| "str_exn (OtherException c m) = m"

fun is_PSXRequestError :: "exn \<Rightarrow> bool" where
  "is_PSXRequestError (PSXRequestError m) = True"
| "is_PSXRequestError e = False"

text \<open>
  A \<^verbatim>\<open>datetime\<close> is its proleptic Gregorian day number (\<^verbatim>\<open>toordinal()\<close>, day 1 is
  0001-01-01, day 3652059 is 9999-12-31) and the microsecond within the day.
\<close>

record datetime =
  ordinal :: int
  micros :: nat

text \<open>
  \<^verbatim>\<open>end_date - timedelta(days=d)\<close>.  The constructor of \<^verbatim>\<open>timedelta\<close> refuses a
  magnitude above 999999999 days and the subtraction refuses a date outside years
  1 to 9999; both raise \<^verbatim>\<open>OverflowError\<close>, whose message is the library's and is
  shortened here.
\<close>

definition minus_days :: "datetime \<Rightarrow> int \<Rightarrow> exn + datetime" where
  "minus_days t d =
     (if d < - 999999999 \<or> 999999999 < d
      then Inl (OverflowError ''days out of range for timedelta'')
      else if ordinal t - d < 1 \<or> 3652059 < ordinal t - d
      then Inl (OverflowError ''date value out of range'')
      else Inr (t\<lparr>ordinal := ordinal t - d\<rparr>))"

subsection \<open>The builtin \<^verbatim>\<open>int\<close> on a string\<close>

text \<open>
  \<^verbatim>\<open>int(s)\<close> in base 10, on ASCII text: surrounding whitespace is stripped, one sign
  is allowed, and the digits may be separated by single underscores.  Anything else
  raises \<^verbatim>\<open>ValueError\<close>.
\<close>

definition is_space :: "char \<Rightarrow> bool" where
  "is_space c = (c \<in> set [CHR '' '', CHR 0x09, CHR 0x0A, CHR 0x0B, CHR 0x0C, CHR 0x0D])"

definition strip :: "string \<Rightarrow> string" where
  "strip s = rev (dropWhile is_space (rev (dropWhile is_space s)))"

definition digit_val :: "char \<Rightarrow> nat option" where
  "digit_val c = map_of (zip ''0123456789'' [0, 1, 2, 3, 4, 5, 6, 7, 8, 9]) c"

text \<open>The digits after the first one; an underscore must be followed by a digit.\<close>

fun more_digits :: "nat \<Rightarrow> string \<Rightarrow> nat option" where
  "more_digits acc [] = Some acc"
| "more_digits acc [c] =
     (case digit_val c of None \<Rightarrow> None | Some v \<Rightarrow> Some (10 * acc + v))"
| "more_digits acc (c # d # ds) =
     (if c = CHR ''_''
      then (case digit_val d of None \<Rightarrow> None | Some v \<Rightarrow> more_digits (10 * acc + v) ds)
      else (case digit_val c of None \<Rightarrow> None | Some v \<Rightarrow> more_digits (10 * acc + v) (d # ds)))"

definition digits :: "string \<Rightarrow> nat option" where
  "digits s =
     (case s of [] \<Rightarrow> None
      | c # cs \<Rightarrow> (case digit_val c of None \<Rightarrow> None | Some v \<Rightarrow> more_digits v cs))"

definition signed_digits :: "string \<Rightarrow> int option" where
  "signed_digits s =
     (case s of
        [] \<Rightarrow> None
      | c # cs \<Rightarrow>
          if c = CHR ''-'' then map_option (\<lambda>n. - int n) (digits cs)
          else if c = CHR ''+'' then map_option int (digits cs)
          else map_option int (digits s))"

definition py_int :: "string \<Rightarrow> exn + int" where
  "py_int s =
     (case signed_digits (strip s) of
        None \<Rightarrow> Inl (ValueError (''invalid literal for int() with base 10: '' @ quote @ s @ quote))
      | Some v \<Rightarrow> Inr v)"

section \<open>Resolving the date range\<close>

definition invalid_period :: string where
  "invalid_period =
     ''Invalid period format. Use '' @ quote @ ''Xmo'' @ quote @ '' or '' @ quote @ ''Xy'' @ quote
       @ '' (e.g. '' @ quote @ ''1mo'' @ quote @ '', '' @ quote @ ''1y'' @ quote @ '')''"

text \<open>
  Lines 67 to 77.  \<^verbatim>\<open>period[:-2]\<close> drops the last two characters (nothing is left
  of a string of at most two) and \<^verbatim>\<open>period[-2:]\<close> keeps the last two (the whole
  string when it is shorter), which is what truncating subtraction on \<open>nat\<close> gives.
\<close>

definition resolve_start :: "datetime option \<Rightarrow> datetime \<Rightarrow> string \<Rightarrow> exn + datetime" where
  "resolve_start start_date end_date period =
     (case start_date of
        Some s \<Rightarrow> Inr s
      | None \<Rightarrow>
          (case py_int (take (length period - 2) period) of
             Inl e \<Rightarrow> Inl e
           | Inr v \<Rightarrow>
               (let unit = drop (length period - 2) period in
                if unit = ''mo'' then minus_days end_date (v * 30)
                else if unit = ''y'' then minus_days end_date (v * 365)
                else Inl (ValueError invalid_period))))"

section \<open>Values and tables\<close>

text \<open>
  The payloads of the sources are loosely typed; \<open>pyval\<close> covers the JSON-like
  values, pandas timestamps and the missing-value marker.  A dictionary is an
  association list from keys to values, in insertion order.
\<close>

datatype pyval =
    PNone
  | PBool bool
  | PInt int
  | PFloat int int
  | PNaN
  | PStr string
  | PList "pyval list"
  | PTuple "pyval list"
  | PDict "(pyval \<times> pyval) list"
  | PTimestamp datetime

fun type_name :: "pyval \<Rightarrow> string" where
  "type_name PNone = ''NoneType''"
| "type_name (PBool b) = ''bool''"
| "type_name (PInt i) = ''int''"
| "type_name (PFloat m e) = ''float''"
| "type_name PNaN = ''float''"
| "type_name (PStr s) = ''str''"
| "type_name (PList xs) = ''list''"
| "type_name (PTuple xs) = ''tuple''"
| "type_name (PDict d) = ''dict''"
| "type_name (PTimestamp t) = ''Timestamp''"

text \<open>What a \<^verbatim>\<open>for\<close> loop iterates over: a dictionary yields its keys, a string
  its characters, and a scalar raises \<^verbatim>\<open>TypeError\<close>.\<close>

fun py_iter :: "pyval \<Rightarrow> exn + pyval list" where
  "py_iter (PList xs) = Inr xs"
| "py_iter (PTuple xs) = Inr xs"
| "py_iter (PDict d) = Inr (map fst d)"
| "py_iter (PStr s) = Inr (map (\<lambda>c. PStr [c]) s)"
| "py_iter v = Inl (TypeError (quote @ type_name v @ quote @ '' object is not iterable''))"

text \<open>\<^verbatim>\<open>data.get(k, None)\<close>: only a dictionary has the method.\<close>

fun py_get :: "pyval \<Rightarrow> string \<Rightarrow> exn + pyval" where
  "py_get (PDict d) k = Inr (case map_of d (PStr k) of None \<Rightarrow> PNone | Some v \<Rightarrow> v)"
| "py_get v k =
     Inl (AttributeError (quote @ type_name v @ quote @ '' object has no attribute ''
                            @ quote @ ''get'' @ quote))"

text \<open>
  A pandas \<^verbatim>\<open>DataFrame\<close>, column by column: the index (its name and its labels, one
  per row) and the columns in order, each with its label and its cells.  Column
  labels are strings, the only labels \<^verbatim>\<open>col.lower()\<close> accepts.
\<close>

record frame =
  index_name :: "string option"
  index :: "pyval list"
  columns :: "(string \<times> pyval list) list"

text \<open>\<^verbatim>\<open>df.empty\<close>: one of the two axes has length zero.\<close>

definition df_empty :: "frame \<Rightarrow> bool" where
  "df_empty df = (index df = [] \<or> columns df = [])"

text \<open>
  \<^verbatim>\<open>pd.DataFrame(records)\<close> on a list of dictionaries with string keys, as the
  two call sites build it: every record carries the same keys in the same order, so
  the columns are the keys of the first record; a key missing from a record would
  be filled with NaN.  The index is \<^verbatim>\<open>0 .. n-1\<close>.
\<close>

definition DataFrame :: "(string \<times> pyval) list list \<Rightarrow> frame" where
  "DataFrame records =
     \<lparr>index_name = None,
      index = map (\<lambda>i. PInt (int i)) [0..<length records],
      columns = map (\<lambda>k. (k, map (\<lambda>r. case map_of r k of None \<Rightarrow> PNaN | Some v \<Rightarrow> v) records))
                    (case records of [] \<Rightarrow> [] | r # _ \<Rightarrow> map fst r)\<rparr>"

text \<open>\<^verbatim>\<open>df.set_index(k)\<close>: the column \<open>k\<close> becomes the index.\<close>

definition set_index :: "string \<Rightarrow> frame \<Rightarrow> exn + frame" where
  "set_index k df =
     (case map_of (columns df) k of
        None \<Rightarrow> Inl (KeyError k)
      | Some cells \<Rightarrow>
          Inr \<lparr>index_name = Some k, index = cells,
               columns = filter (\<lambda>c. fst c \<noteq> k) (columns df)\<rparr>)"

definition upper_letters :: string where
  "upper_letters = ''ABCDEFGHIJKLMNOPQRSTUVWXYZ''"

definition lower_letters :: string where
  "lower_letters = ''abcdefghijklmnopqrstuvwxyz''"

definition lower_char :: "char \<Rightarrow> char" where
  "lower_char c = (case map_of (zip upper_letters lower_letters) c of None \<Rightarrow> c | Some l \<Rightarrow> l)"

definition upper_char :: "char \<Rightarrow> char" where
  "upper_char c = (case map_of (zip lower_letters upper_letters) c of None \<Rightarrow> c | Some u \<Rightarrow> u)"

text \<open>\<^verbatim>\<open>str.lower\<close> and \<^verbatim>\<open>str.upper\<close> on ASCII text.\<close>

definition lower :: "string \<Rightarrow> string" where
  "lower s = map lower_char s"

definition upper :: "string \<Rightarrow> string" where
  "upper s = map upper_char s"

text \<open>Line 88: \<^verbatim>\<open>df.columns = [col.lower() for col in df.columns]\<close>.\<close>

definition lower_columns :: "frame \<Rightarrow> frame" where
  "lower_columns df = df\<lparr>columns := map (\<lambda>c. (lower (fst c), snd c)) (columns df)\<rparr>"

section \<open>The collaborators\<close>

text \<open>
  The sources, the clock and the pandas routines are not part of the repository's
  code; the record \<open>env\<close> holds what each of them answers.  A source answers with a
  value or raises.  \<open>statistic_error w stat col df\<close> is the class and message of what
  pandas raises when \<^verbatim>\<open>df[col].stat()\<close> is computed and formatted on a column that
  exists (for instance on text cells), and \<open>None\<close> when it prints.
\<close>

record env =
  now :: datetime
  scrape_historical_data :: "string \<Rightarrow> datetime \<Rightarrow> datetime \<Rightarrow> exn + frame"
  statistic_error :: "string \<Rightarrow> string \<Rightarrow> frame \<Rightarrow> (string \<times> string) option"
  new_TradingViewClient :: "exn option"
  tv_get_historical_data :: "string \<Rightarrow> datetime \<Rightarrow> datetime \<Rightarrow> exn + pyval"
  to_datetime :: "pyval \<Rightarrow> exn + pyval"
  psx_reader_get_intraday_data :: "string \<Rightarrow> exn + frame"
  fetch_intraday_data :: "string \<Rightarrow> exn + pyval"

text \<open>The calls made to the sources, in order.\<close>

datatype call =
    Call_scrape_historical_data string datetime datetime
  | Call_TradingViewClient
  | Call_tv_get_historical_data string datetime datetime
  | Call_psx_reader_get_intraday_data string
  | Call_fetch_intraday_data string

section \<open>The ticker\<close>

record PSXTicker =
  symbol :: string

definition init :: "string \<Rightarrow> PSXTicker" where
  "init name = \<lparr>symbol = upper name\<rparr>"

subsection \<open>Intraday data\<close>

text \<open>Lines 34 to 39, the body of the inner \<^verbatim>\<open>try\<close>.\<close>

definition intraday_fallback :: "env \<Rightarrow> PSXTicker \<Rightarrow> exn + frame" where
  "intraday_fallback w self =
     (case fetch_intraday_data w (symbol self) of
        Inl e \<Rightarrow> Inl e
      | Inr data \<Rightarrow>
          (case py_get data ''price'' of
             Inl e \<Rightarrow> Inl e
           | Inr price \<Rightarrow>
               (case py_get data ''volume'' of
                  Inl e \<Rightarrow> Inl e
                | Inr volume \<Rightarrow>
                    set_index ''timestamp''
                      (DataFrame [[(''timestamp'', PTimestamp (now w)),
                                   (''price'', price), (''volume'', volume)]]))))"

definition get_intraday_data :: "env \<Rightarrow> PSXTicker \<Rightarrow> call list \<times> (exn + frame)" where
  "get_intraday_data w self =
     (case psx_reader_get_intraday_data w (symbol self) of
        Inr df \<Rightarrow> ([Call_psx_reader_get_intraday_data (symbol self)], Inr df)
      | Inl e \<Rightarrow>
          ([Call_psx_reader_get_intraday_data (symbol self), Call_fetch_intraday_data (symbol self)],
           case intraday_fallback w self of
             Inr df \<Rightarrow> Inr df
           | Inl e2 \<Rightarrow> Inl (PSXRequestError (''Failed to fetch intraday data: '' @ str_exn e2))))"

subsection \<open>Historical data: the reader branch\<close>

text \<open>
  One line of the price statistics, \<^verbatim>\<open>df[col].stat()\<close> formatted: the lookup raises
  \<^verbatim>\<open>KeyError\<close> when no column has the label, and pandas may raise on the cells.
\<close>

definition column_statistic :: "env \<Rightarrow> frame \<Rightarrow> string \<Rightarrow> string \<Rightarrow> exn option" where
  "column_statistic w df col stat =
     (if col \<notin> fst ` set (columns df) then Some (KeyError col)
      else (case statistic_error w stat col df of
              None \<Rightarrow> None
            | Some (cls, msg) \<Rightarrow> Some (OtherException cls msg)))"

text \<open>
  Lines 92 to 101.  The row count and the previews of head and tail print for every
  table; what is printed is not kept, only whether the step raises.
\<close>

definition print_statistics :: "env \<Rightarrow> frame \<Rightarrow> exn option" where
  "print_statistics w df =
     (case column_statistic w df ''close'' ''mean'' of
        Some e \<Rightarrow> Some e
      | None \<Rightarrow>
          (case column_statistic w df ''high'' ''max'' of
             Some e \<Rightarrow> Some e
           | None \<Rightarrow>
               (case column_statistic w df ''low'' ''min'' of
                  Some e \<Rightarrow> Some e
                | None \<Rightarrow> column_statistic w df ''volume'' ''sum'')))"

text \<open>Lines 85 to 103, the body of the first \<^verbatim>\<open>try\<close>.\<close>

definition reader_attempt :: "env \<Rightarrow> PSXTicker \<Rightarrow> datetime \<Rightarrow> datetime \<Rightarrow> exn + frame" where
  "reader_attempt w self start_date end_date =
     (case scrape_historical_data w (symbol self) start_date end_date of
        Inl e \<Rightarrow> Inl e
      | Inr df0 \<Rightarrow>
          (let df = lower_columns df0 in
           if \<not> df_empty df
           then (case print_statistics w df of Some e \<Rightarrow> Inl e | None \<Rightarrow> Inr df)
           else Inr df))"

subsection \<open>Historical data: the TradingView branch\<close>

definition digit_char :: "nat \<Rightarrow> char" where
  "digit_char d = ''0123456789'' ! d"

text \<open>The decimal text of a number, as an f-string prints it; \<open>digit_char\<close> is
  only asked for a digit below ten.\<close>

fun str_nat :: "nat \<Rightarrow> string" where
  "str_nat n = (if n < 10 then [digit_char n] else str_nat (n div 10) @ [digit_char (n mod 10)])"

declare str_nat.simps [simp del]

text \<open>
  Line 123, the assignment to six names: a list of any other length raises
  \<^verbatim>\<open>ValueError\<close>.
\<close>

fun unpack6 :: "pyval list \<Rightarrow> exn + (pyval \<times> pyval \<times> pyval \<times> pyval \<times> pyval \<times> pyval)" where
  "unpack6 [a, b, c, d, e, f] = Inr (a, b, c, d, e, f)"
| "unpack6 xs =
     Inl (ValueError
       (if length xs < 6
        then ''not enough values to unpack (expected 6, got '' @ str_nat (length xs) @ '')''
        else ''too many values to unpack (expected 6)''))"

text \<open>Lines 124 to 131, the dictionary appended for one entry.\<close>

definition tv_record ::
  "pyval \<Rightarrow> pyval \<Rightarrow> pyval \<Rightarrow> pyval \<Rightarrow> pyval \<Rightarrow> pyval \<Rightarrow> (string \<times> pyval) list" where
  "tv_record date open_val high low close volume =
     [(''date'', date), (''open'', open_val), (''high'', high),
      (''low'', low), (''close'', close), (''volume'', volume)]"

text \<open>Lines 121 to 131, the loop over the entries; \<open>data\<close> is the list built so far.\<close>

fun tv_rows :: "env \<Rightarrow> pyval list \<Rightarrow> (string \<times> pyval) list list \<Rightarrow> exn + (string \<times> pyval) list list" where
  "tv_rows w [] data = Inr data"
| "tv_rows w (entry # rest) data =
     (case entry of
        PList xs \<Rightarrow>
          if 6 \<le> length xs
          then (case unpack6 xs of
                  Inl e \<Rightarrow> Inl e
                | Inr (date_str, open_val, high, low, close, volume) \<Rightarrow>
                    (case to_datetime w date_str of
                       Inl e \<Rightarrow> Inl e
                     | Inr date \<Rightarrow>
                         tv_rows w rest (data @ [tv_record date open_val high low close volume])))
          else tv_rows w rest data
      | _ \<Rightarrow> tv_rows w rest data)"

text \<open>
  Lines 118 to 136: the table made of the payload when there is one, \<open>None\<close> when
  the code falls out of the \<^verbatim>\<open>if\<close>s without returning.
\<close>

definition tv_frame :: "env \<Rightarrow> pyval \<Rightarrow> exn + frame option" where
  "tv_frame w tv_data =
     (case tv_data of
        PDict d \<Rightarrow>
          (case map_of d (PStr ''data'') of
             None \<Rightarrow> Inr None
           | Some v \<Rightarrow>
               (case py_iter v of
                  Inl e \<Rightarrow> Inl e
                | Inr entries \<Rightarrow>
                    (case tv_rows w entries [] of
                       Inl e \<Rightarrow> Inl e
                     | Inr data \<Rightarrow>
                         (let df = DataFrame data in
                          if \<not> df_empty df
                          then (case set_index ''date'' df of Inl e \<Rightarrow> Inl e | Inr df' \<Rightarrow> Inr (Some df'))
                          else Inr None))))
      | _ \<Rightarrow> Inr None)"

text \<open>Lines 110 to 136, the body of the second \<^verbatim>\<open>try\<close>, with the calls it makes.\<close>

definition tradingview_attempt ::
  "env \<Rightarrow> PSXTicker \<Rightarrow> datetime \<Rightarrow> datetime \<Rightarrow> call list \<times> (exn + frame option)" where
  "tradingview_attempt w self start_date end_date =
     (case new_TradingViewClient w of
        Some e \<Rightarrow> ([Call_TradingViewClient], Inl e)
      | None \<Rightarrow>
          ([Call_TradingViewClient, Call_tv_get_historical_data (symbol self) start_date end_date],
           case tv_get_historical_data w (symbol self) start_date end_date of
             Inl e \<Rightarrow> Inl e
           | Inr tv_data \<Rightarrow> tv_frame w tv_data))"

subsection \<open>Historical data: the orchestration\<close>

definition header :: string where
  "header = ''Failed to fetch historical data using all available methods:'' @ newline"

text \<open>Lines 142 and 143, the loop that numbers the recorded errors.\<close>

fun enumerate_errors :: "string \<Rightarrow> nat \<Rightarrow> string list \<Rightarrow> string" where
  "enumerate_errors error_msg i [] = error_msg"
| "enumerate_errors error_msg i (error # errors) =
     enumerate_errors (error_msg @ str_nat i @ ''. '' @ error @ newline) (Suc i) errors"

definition all_failed :: "string list \<Rightarrow> exn" where
  "all_failed errors = PSXRequestError (enumerate_errors header 1 errors)"

text \<open>
  Lines 108 to 145: what follows the reader branch, given the calls made and the
  errors recorded so far.
\<close>

definition tradingview_step ::
  "env \<Rightarrow> PSXTicker \<Rightarrow> datetime \<Rightarrow> datetime \<Rightarrow> bool \<Rightarrow> call list \<Rightarrow> string list
     \<Rightarrow> call list \<times> (exn + frame)" where
  "tradingview_step w self start_date end_date use_tradingview calls errors =
     (if use_tradingview
      then (case tradingview_attempt w self start_date end_date of
              (cs, Inr (Some df)) \<Rightarrow> (calls @ cs, Inr df)
            | (cs, Inr None) \<Rightarrow> (calls @ cs, Inl (all_failed errors))
            | (cs, Inl e) \<Rightarrow>
                (calls @ cs, Inl (all_failed (errors @ [''TradingView error: '' @ str_exn e]))))
      else (calls, Inl (all_failed errors)))"

text \<open>Lines 80 to 145: the sources in their order of preference.\<close>

definition fetch_from_sources ::
  "env \<Rightarrow> PSXTicker \<Rightarrow> datetime \<Rightarrow> datetime \<Rightarrow> bool \<Rightarrow> bool \<Rightarrow> call list \<times> (exn + frame)" where
  "fetch_from_sources w self start_date end_date use_tradingview use_psx_reader =
     (if use_psx_reader
      then (case reader_attempt w self start_date end_date of
              Inr df \<Rightarrow> ([Call_scrape_historical_data (symbol self) start_date end_date], Inr df)
            | Inl e \<Rightarrow>
                if is_PSXRequestError e
                then tradingview_step w self start_date end_date use_tradingview
                       [Call_scrape_historical_data (symbol self) start_date end_date]
                       [''PSXDataReader error: '' @ str_exn e]
                else ([Call_scrape_historical_data (symbol self) start_date end_date], Inl e))
      else tradingview_step w self start_date end_date use_tradingview [] [])"

text \<open>Lines 64 and 65: the end of the range is the clock's reading when none is given.\<close>

definition resolve_end :: "env \<Rightarrow> datetime option \<Rightarrow> datetime" where
  "resolve_end w end_date = (case end_date of None \<Rightarrow> now w | Some t \<Rightarrow> t)"

text \<open>
  \<^verbatim>\<open>PSXTicker.get_historical_data\<close>: the calls made to the sources and the table
  returned or the exception raised.
\<close>

definition get_historical_data ::
  "env \<Rightarrow> PSXTicker \<Rightarrow> datetime option \<Rightarrow> datetime option \<Rightarrow> string \<Rightarrow> bool \<Rightarrow> bool
     \<Rightarrow> call list \<times> (exn + frame)" where
  "get_historical_data w self start_date end_date period use_tradingview use_psx_reader =
     (case resolve_start start_date (resolve_end w end_date) period of
        Inl e \<Rightarrow> ([], Inl e)
      | Inr start_date' \<Rightarrow>
          fetch_from_sources w self start_date' (resolve_end w end_date)
            use_tradingview use_psx_reader)"

section \<open>Example inputs\<close>

text \<open>The first and the last day of March 2024, at midnight.\<close>

definition day0 :: datetime where
  "day0 = \<lparr>ordinal = 738946, micros = 0\<rparr>"

definition day1 :: datetime where
  "day1 = \<lparr>ordinal = 738976, micros = 0\<rparr>"

text \<open>A conversion that knows two dates, keeps a timestamp and refuses the rest.\<close>

fun example_to_datetime :: "pyval \<Rightarrow> exn + pyval" where
  "example_to_datetime (PTimestamp t) = Inr (PTimestamp t)"
| "example_to_datetime (PStr s) =
     (if s = ''2024-03-01'' then Inr (PTimestamp day0)
      else if s = ''2024-03-31'' then Inr (PTimestamp day1)
      else Inl (ValueError (''Unknown datetime string format: '' @ s)))"
| "example_to_datetime v = Inl (TypeError (type_name v @ '' is not convertible to datetime''))"

text \<open>A day on which no source answers.\<close>

definition offline :: env where
  "offline =
     \<lparr>now = day1,
      scrape_historical_data = (\<lambda>sym a b. Inl (PSXRequestError ''PSX portal unreachable'')),
      statistic_error = (\<lambda>stat col df. None),
      new_TradingViewClient = None,
      tv_get_historical_data = (\<lambda>sym a b. Inl (OtherException ''ConnectionError'' ''TradingView unreachable'')),
      to_datetime = example_to_datetime,
      psx_reader_get_intraday_data = (\<lambda>sym. Inl (PSXRequestError ''PSX portal unreachable'')),
      fetch_intraday_data = (\<lambda>sym. Inl (OtherException ''ConnectionError'' ''Connection refused''))\<rparr>"

definition reader_returns :: "frame \<Rightarrow> env" where
  "reader_returns df = offline\<lparr>scrape_historical_data := (\<lambda>sym a b. Inr df)\<rparr>"

definition reader_raises :: "exn \<Rightarrow> env" where
  "reader_raises e = offline\<lparr>scrape_historical_data := (\<lambda>sym a b. Inl e)\<rparr>"

definition tradingview_returns :: "pyval \<Rightarrow> env" where
  "tradingview_returns v = offline\<lparr>tv_get_historical_data := (\<lambda>sym a b. Inr v)\<rparr>"

definition intraday_returns :: "pyval \<Rightarrow> env" where
  "intraday_returns v = offline\<lparr>fetch_intraday_data := (\<lambda>sym. Inr v)\<rparr>"

definition reader_intraday_returns :: "frame \<Rightarrow> env" where
  "reader_intraday_returns df = offline\<lparr>psx_reader_get_intraday_data := (\<lambda>sym. Inr df)\<rparr>"

text \<open>Tables as the reader may scrape them: one without rows, one trading day, and one
  that has no closing price.\<close>

definition no_rows :: frame where
  "no_rows =
     \<lparr>index_name = Some ''Date'', index = [],
      columns = [(''Open'', []), (''High'', []), (''Low'', []), (''Close'', []), (''Volume'', [])]\<rparr>"

definition one_day :: frame where
  "one_day =
     \<lparr>index_name = Some ''Date'', index = [PTimestamp day0],
      columns = [(''Open'', [PInt 100]), (''High'', [PInt 110]), (''Low'', [PInt 95]),
                 (''Close'', [PInt 105]), (''Volume'', [PInt 5000])]\<rparr>"

definition no_close :: frame where
  "no_close =
     \<lparr>index_name = Some ''Date'', index = [PTimestamp day0],
      columns = [(''Open'', [PInt 100]), (''High'', [PInt 110]), (''Low'', [PInt 95]),
                 (''Volume'', [PInt 5000])]\<rparr>"

definition no_volume :: frame where
  "no_volume =
     \<lparr>index_name = Some ''Date'', index = [PTimestamp day0],
      columns = [(''Open'', [PInt 100]), (''High'', [PInt 110]), (''Low'', [PInt 95]),
                 (''Close'', [PInt 105])]\<rparr>"

text \<open>An intraday series of the reader, and a snapshot of the older source that carries
  a timestamp of its own.\<close>

definition ticks :: frame where
  "ticks =
     \<lparr>index_name = Some ''timestamp'', index = [PTimestamp day0, PTimestamp day1],
      columns = [(''price'', [PInt 104, PInt 105]), (''volume'', [PInt 300, PInt 200])]\<rparr>"

definition snapshot :: pyval where
  "snapshot = PDict [(PStr ''timestamp'', PTimestamp day0), (PStr ''price'', PInt 105),
                     (PStr ''volume'', PInt 5000)]"

text \<open>Rows as TradingView may send them: six fields, seven fields, and too few.\<close>

definition row6 :: pyval where
  "row6 = PList [PStr ''2024-03-01'', PInt 100, PInt 110, PInt 95, PInt 105, PInt 5000]"

definition row7 :: pyval where
  "row7 = PList [PStr ''2024-03-01'', PInt 100, PInt 110, PInt 95, PInt 105, PInt 5000, PInt 0]"

definition row3 :: pyval where
  "row3 = PList [PStr ''2024-03-01'', PInt 100, PInt 110]"

section \<open>The builtin parser reads what the formatter prints\<close>

lemma digit_cases:
  "d < 10 \<Longrightarrow> d = 0 \<or> d = 1 \<or> d = 2 \<or> d = 3 \<or> d = 4 \<or> d = 5 \<or> d = 6 \<or> d = 7 \<or> d = 8 \<or> d = (9::nat)"
  by arith

lemma digit_val_digit_char: "d < 10 \<Longrightarrow> digit_val (digit_char d) = Some d"
  using digit_cases [of d] by (auto simp: digit_val_def digit_char_def)

lemma digit_char_plain:
  "d < 10 \<Longrightarrow> \<not> is_space (digit_char d) \<and> digit_char d \<noteq> CHR ''-'' \<and> digit_char d \<noteq> CHR ''+''
     \<and> digit_char d \<noteq> CHR ''_''"
  using digit_cases [of d] by (auto simp: is_space_def digit_char_def)

lemma more_digits_snoc:
  "more_digits acc s = Some a \<Longrightarrow> d < 10 \<Longrightarrow> more_digits acc (s @ [digit_char d]) = Some (10 * a + d)"
proof (induction acc s rule: more_digits.induct)
  case (1 acc)
  then show ?case by (simp add: digit_val_digit_char)
next
  case (2 acc c)
  then obtain v where v: "digit_val c = Some v" "a = 10 * acc + v"
    by (auto split: option.splits)
  then have "c \<noteq> CHR ''_''"
    by (auto simp: digit_val_def)
  with v 2 show ?case
    by (simp add: digit_val_digit_char)
next
  case (3 acc c d' ds)
  then show ?case
    by (auto split: option.splits if_splits)
qed

lemma digits_snoc:
  "digits s = Some a \<Longrightarrow> d < 10 \<Longrightarrow> digits (s @ [digit_char d]) = Some (10 * a + d)"
  by (cases s) (auto simp: digits_def more_digits_snoc split: option.splits)

lemma digits_str_nat: "digits (str_nat n) = Some n"
proof (induction n rule: str_nat.induct)
  case (1 n)
  show ?case
  proof (cases "n < 10")
    case True
    then show ?thesis
      by (simp add: str_nat.simps [of n] digits_def digit_val_digit_char)
  next
    case False
    with 1 have "digits (str_nat (n div 10)) = Some (n div 10)" by simp
    then have "digits (str_nat (n div 10) @ [digit_char (n mod 10)]) = Some (10 * (n div 10) + n mod 10)"
      by (rule digits_snoc) simp
    with False show ?thesis
      by (simp add: str_nat.simps [of n])
  qed
qed

lemma str_nat_plain: "str_nat n \<noteq> [] \<and> (\<forall>c \<in> set (str_nat n). \<exists>d<10. c = digit_char d)"
proof (induction n rule: str_nat.induct)
  case (1 n)
  show ?case
  proof (cases "n < 10")
    case True
    then show ?thesis by (auto simp: str_nat.simps [of n])
  next
    case False
    with 1 show ?thesis
      by (auto simp: str_nat.simps [of n] intro: exI [of _ "n mod 10"])
  qed
qed

lemma strip_plain:
  assumes "s \<noteq> []" "\<forall>c \<in> set s. \<not> is_space c"
  shows "strip s = s"
proof -
  have "dropWhile is_space s = s"
    using assms by (cases s) auto
  moreover have "dropWhile is_space (rev s) = rev s"
    using assms by (cases "rev s") auto
  ultimately show ?thesis by (simp add: strip_def)
qed

lemma signed_digits_plain:
  "s \<noteq> [] \<Longrightarrow> hd s \<noteq> CHR ''-'' \<Longrightarrow> hd s \<noteq> CHR ''+'' \<Longrightarrow> signed_digits s = map_option int (digits s)"
  by (cases s) (simp_all add: signed_digits_def)

lemma py_int_str_nat: "py_int (str_nat n) = Inr (int n)"
proof -
  have p: "str_nat n \<noteq> []" "\<forall>c \<in> set (str_nat n). \<exists>d<10. c = digit_char d"
    using str_nat_plain [of n] by auto
  then have "strip (str_nat n) = str_nat n"
    by (intro strip_plain) (auto simp: digit_char_plain)
  moreover have "signed_digits (str_nat n) = Some (int n)"
  proof -
    from p have "hd (str_nat n) \<in> set (str_nat n)" by simp
    with p obtain d where "d < 10" "hd (str_nat n) = digit_char d" by blast
    with p show ?thesis
      by (simp add: signed_digits_plain digit_char_plain digits_str_nat)
  qed
  ultimately show ?thesis by (simp add: py_int_def)
qed

lemma py_int_ValueError: "py_int s = Inl e \<Longrightarrow> \<exists>m. e = ValueError m"
  by (auto simp: py_int_def split: option.splits)

section \<open>The period\<close>

text \<open>
  A count of months resolves as documented: the start is thirty days per month before
  the end, within what \<^verbatim>\<open>timedelta\<close> and \<^verbatim>\<open>datetime\<close> can hold.
\<close>

lemma month_period_start:
  "resolve_start None end_date (str_nat n @ ''mo'') = minus_days end_date (int n * 30)"
  by (simp add: resolve_start_def py_int_str_nat)

lemma month_period_in_range:
  assumes "int n * 30 < ordinal end_date" "ordinal end_date \<le> 3652059"
  shows "resolve_start None end_date (str_nat n @ ''mo'') = Inr (end_date\<lparr>ordinal := ordinal end_date - 30 * int n\<rparr>)"
  using assms by (simp add: month_period_start minus_days_def)

lemma one_month_before_end_of_march: "resolve_start None day1 ''1mo'' = Inr day0"
  by (simp add: resolve_start_def py_int_def strip_def signed_digits_def digits_def digit_val_def
      minus_days_def day0_def day1_def is_space_def)

text \<open>An unsupported unit is refused, whatever stands before it.\<close>

lemma week_period_refused: "resolve_start None end_date (str_nat n @ ''wk'') = Inl (ValueError invalid_period)"
  by (simp add: resolve_start_def py_int_str_nat)

text \<open>
  No period that ends in \<open>y\<close> resolves.  The unit is cut as the last two characters,
  so it is \<open>y\<close> only for the period \<open>y\<close> itself, whose count is the empty string.
\<close>

lemma year_period_raises: "\<exists>m. resolve_start None end_date (s @ ''y'') = Inl (ValueError m)"
proof (cases "s = []")
  case True
  then show ?thesis
    by (simp add: resolve_start_def py_int_def strip_def signed_digits_def)
next
  case False
  then obtain t c where s: "s = t @ [c]"
    by (metis rev_exhaust)
  have u: "drop (length (s @ ''y'') - 2) (s @ ''y'') = [c, CHR ''y'']"
    by (simp add: s)
  show ?thesis
    using py_int_ValueError [of "take (length (s @ ''y'') - 2) (s @ ''y'')"]
    unfolding resolve_start_def u
    by (auto simp: Let_def split: sum.splits)
qed

text \<open>
  More generally, with no start date every period that does not end in \<open>mo\<close> raises
  \<^verbatim>\<open>ValueError\<close> before a source is called: the branch for years cannot be reached.
\<close>

lemma period_outside_months_raises:
  assumes "drop (length period - 2) period \<noteq> ''mo''"
  shows "\<exists>m. get_historical_data w self None end_date period use_tradingview use_psx_reader =
               ([], Inl (ValueError m))"
proof (cases "py_int (take (length period - 2) period)")
  case (Inl e)
  then show ?thesis
    using py_int_ValueError [OF Inl]
    by (auto simp: get_historical_data_def resolve_start_def)
next
  case (Inr v)
  have "drop (length period - 2) period \<noteq> ''y''"
  proof
    assume y: "drop (length period - 2) period = ''y''"
    then have "length (drop (length period - 2) period) = 1" by simp
    then have "length period = 1" by (simp split: if_splits)
    with y have "take (length period - 2) period = []" by simp
    with Inr show False
      by (simp add: py_int_def strip_def signed_digits_def)
  qed
  with assms Inr show ?thesis
    by (simp add: get_historical_data_def resolve_start_def)
qed

text \<open>
  Claim C1.  With no start date the period gives the start: thirty days per month for
  \<open><int>mo\<close>, 365 days per year for \<open><int>y\<close>, and a \<^verbatim>\<open>ValueError\<close> before any
  source is contacted for another unit.  The code does not do this for years: on the
  period \<open>1y\<close> of its own docstring, \<^verbatim>\<open>period[:-2]\<close> is the empty string, the call
  to \<^verbatim>\<open>int\<close> raises \<^verbatim>\<open>ValueError\<close>, and no source is contacted.
\<close>

theorem C1_one_year_period_raises:
  "get_historical_data w self None end_date ''1y'' use_tradingview use_psx_reader =
     ([], Inl (ValueError (''invalid literal for int() with base 10: '' @ quote @ quote)))"
  by (simp add: get_historical_data_def resolve_start_def py_int_def strip_def signed_digits_def)

section \<open>The reader branch\<close>

lemmas example_defs = reader_returns_def reader_raises_def tradingview_returns_def intraday_returns_def
  reader_intraday_returns_def offline_def init_def upper_def upper_char_def upper_letters_def lower_letters_def
  resolve_end_def

lemma df_empty_lower_columns: "df_empty (lower_columns df) = df_empty df"
  by (simp add: df_empty_def lower_columns_def)

lemma lower_columns_keeps:
  "index_name (lower_columns df) = index_name df"
  "index (lower_columns df) = index df"
  "map snd (columns (lower_columns df)) = map snd (columns df)"
  "map fst (columns (lower_columns df)) = map lower (map fst (columns df))"
  by (simp_all add: lower_columns_def comp_def)

lemma column_statistic_not_request: "column_statistic w df col stat = Some e \<Longrightarrow> \<not> is_PSXRequestError e"
  by (auto simp: column_statistic_def split: if_splits option.splits)

lemma print_statistics_not_request: "print_statistics w df = Some e \<Longrightarrow> \<not> is_PSXRequestError e"
  by (auto simp: print_statistics_def split: option.splits dest: column_statistic_not_request)

lemma print_statistics_quiet:
  assumes "\<forall>c \<in> set [''close'', ''high'', ''low'', ''volume'']. c \<in> fst ` set (columns df)"
      and "statistic_error w ''mean'' ''close'' df = None"
      and "statistic_error w ''max'' ''high'' df = None"
      and "statistic_error w ''min'' ''low'' df = None"
      and "statistic_error w ''sum'' ''volume'' df = None"
  shows "print_statistics w df = None"
  using assms by (simp add: print_statistics_def column_statistic_def)

text \<open>A table the reader returns ends the call, whatever the statistics do: no other
  source is called.\<close>

lemma reader_table_only_call:
  assumes "scrape_historical_data w (symbol self) s e = Inr df"
  shows "fst (fetch_from_sources w self s e use_tradingview True) =
           [Call_scrape_historical_data (symbol self) s e]"
  using assms
  by (auto simp: fetch_from_sources_def reader_attempt_def Let_def
      split: option.splits dest: print_statistics_not_request)

lemma print_statistics_missing:
  assumes "c \<in> set [''close'', ''high'', ''low'', ''volume'']" "c \<notin> fst ` set (columns df)"
  shows "\<exists>e. print_statistics w df = Some e"
  using assms by (auto simp: print_statistics_def column_statistic_def split: option.splits)

lemma print_statistics_KeyError:
  assumes "print_statistics w df = Some e" "\<forall>stat col. statistic_error w stat col df = None"
  shows "\<exists>k \<in> set [''close'', ''high'', ''low'', ''volume'']. k \<notin> fst ` set (columns df) \<and> e = KeyError k"
  using assms by (auto simp: print_statistics_def column_statistic_def split: option.splits if_splits)

lemma get_historical_data_resolved:
  "resolve_start start_date (resolve_end w end_date) period = Inr s \<Longrightarrow>
   get_historical_data w self start_date end_date period use_tradingview use_psx_reader =
     fetch_from_sources w self s (resolve_end w end_date) use_tradingview use_psx_reader"
  by (simp add: get_historical_data_def)

lemma reader_attempt_raises:
  "scrape_historical_data w (symbol self) s e = Inl x \<Longrightarrow> reader_attempt w self s e = Inl x"
  by (simp add: reader_attempt_def)

text \<open>
  Claim C2.  When the reader succeeds with an empty table, the empty table counts as a
  failure and the next enabled source is tried.  The code does not do this: line 103
  returns whatever the reader gave, the test of line 91 guards the statistics only, so
  an empty table is returned and TradingView is not called, although the TradingView
  branch itself (line 134) returns a table only when it is not empty.
\<close>

theorem C2_empty_reader_table_is_returned:
  assumes "resolve_start start_date (resolve_end w end_date) period = Inr s"
      and "scrape_historical_data w (symbol self) s (resolve_end w end_date) = Inr df"
      and "df_empty df"
  shows "get_historical_data w self start_date end_date period use_tradingview True =
           ([Call_scrape_historical_data (symbol self) s (resolve_end w end_date)], Inr (lower_columns df))"
  using assms
  by (simp add: get_historical_data_resolved fetch_from_sources_def reader_attempt_def
      df_empty_lower_columns)

theorem C2_empty_reader_table_witness:
  "get_historical_data (reader_returns no_rows) (init ''hbl'') None None ''1mo'' True True =
     ([Call_scrape_historical_data ''HBL'' day0 day1],
      Inr \<lparr>index_name = Some ''Date'', index = [],
           columns = [(''open'', []), (''high'', []), (''low'', []), (''close'', []), (''volume'', [])]\<rparr>)"
  using C2_empty_reader_table_is_returned [where start_date = None
          and w = "reader_returns no_rows" and end_date = None and period = "''1mo''" and s = day0
          and self = "init ''hbl''" and df = no_rows and use_tradingview = True]
  by (simp add: example_defs one_month_before_end_of_march no_rows_def df_empty_def lower_columns_def
      lower_def lower_char_def)

text \<open>
  Claim C3, as amended.  When the reader returns a table that is not empty, the reader
  is the only source called: TradingView is never invoked.  When moreover the
  lower-cased labels of the table include \<open>close\<close>, \<open>high\<close>, \<open>low\<close> and \<open>volume\<close> and
  the four printed statistics (the mean of \<open>close\<close>, the maximum of \<open>high\<close>, the
  minimum of \<open>low\<close>, the sum of \<open>volume\<close>) compute, that table is returned with its
  labels lower-cased and its index and cells as they were.
\<close>

theorem C3_nonempty_reader_table_is_returned:
  assumes "resolve_start start_date (resolve_end w end_date) period = Inr s"
      and "scrape_historical_data w (symbol self) s (resolve_end w end_date) = Inr df"
      and "\<not> df_empty df"
  shows "fst (get_historical_data w self start_date end_date period use_tradingview True) =
           [Call_scrape_historical_data (symbol self) s (resolve_end w end_date)]
         \<and> ((\<forall>c \<in> set [''close'', ''high'', ''low'', ''volume''].
                 c \<in> fst ` set (columns (lower_columns df)))
              \<and> statistic_error w ''mean'' ''close'' (lower_columns df) = None
              \<and> statistic_error w ''max'' ''high'' (lower_columns df) = None
              \<and> statistic_error w ''min'' ''low'' (lower_columns df) = None
              \<and> statistic_error w ''sum'' ''volume'' (lower_columns df) = None
            \<longrightarrow> snd (get_historical_data w self start_date end_date period use_tradingview True) =
                  Inr (lower_columns df)
                \<and> index_name (lower_columns df) = index_name df
                \<and> index (lower_columns df) = index df
                \<and> map snd (columns (lower_columns df)) = map snd (columns df)
                \<and> map fst (columns (lower_columns df)) = map lower (map fst (columns df)))"
proof (intro conjI impI)
  show "fst (get_historical_data w self start_date end_date period use_tradingview True) =
           [Call_scrape_historical_data (symbol self) s (resolve_end w end_date)]"
    using assms(1,2) by (simp add: get_historical_data_resolved reader_table_only_call)
next
  assume "(\<forall>c \<in> set [''close'', ''high'', ''low'', ''volume''].
                 c \<in> fst ` set (columns (lower_columns df)))
              \<and> statistic_error w ''mean'' ''close'' (lower_columns df) = None
              \<and> statistic_error w ''max'' ''high'' (lower_columns df) = None
              \<and> statistic_error w ''min'' ''low'' (lower_columns df) = None
              \<and> statistic_error w ''sum'' ''volume'' (lower_columns df) = None"
  then have "print_statistics w (lower_columns df) = None"
    by (intro print_statistics_quiet) simp_all
  with assms show "snd (get_historical_data w self start_date end_date period use_tradingview True) =
                  Inr (lower_columns df)"
    by (simp add: get_historical_data_resolved fetch_from_sources_def reader_attempt_def
        df_empty_lower_columns)
qed (simp_all add: lower_columns_keeps)

text \<open>
  As stated, for every table that is not empty, the claim fails: a table without a
  closing price is not returned, the statistics raise \<^verbatim>\<open>KeyError\<close> on the missing
  column.
\<close>

theorem C3_table_without_close_counterexample:
  "\<not> df_empty no_close \<and>
   get_historical_data (reader_returns no_close) (init ''hbl'') None None ''1mo'' True True =
     ([Call_scrape_historical_data ''HBL'' day0 day1], Inl (KeyError ''close''))"
  by (simp add: get_historical_data_def fetch_from_sources_def reader_attempt_def
      example_defs one_month_before_end_of_march no_close_def df_empty_def lower_columns_def
      lower_def lower_char_def print_statistics_def column_statistic_def)

theorem C3_nonempty_reader_table_witness:
  "get_historical_data (reader_returns one_day) (init ''hbl'') None None ''1mo'' True True =
     ([Call_scrape_historical_data ''HBL'' day0 day1],
      Inr \<lparr>index_name = Some ''Date'', index = [PTimestamp day0],
      columns = [(''open'', [PInt 100]), (''high'', [PInt 110]), (''low'', [PInt 95]),
                 (''close'', [PInt 105]), (''volume'', [PInt 5000])]\<rparr>)"
  using C3_nonempty_reader_table_is_returned [where start_date = None
          and w = "reader_returns one_day" and end_date = None and period = "''1mo''" and s = day0
          and self = "init ''hbl''" and df = one_day and use_tradingview = True]
  by (simp add: prod_eq_iff example_defs one_month_before_end_of_march one_day_def df_empty_def
      lower_columns_def lower_def lower_char_def)

text \<open>
  Claim C10.  On a reader table that is not empty the statistics read the columns
  \<open>close\<close>, \<open>high\<close>, \<open>low\<close> and \<open>volume\<close> without a test.  When one of them is missing
  from the lower-cased table the call ends with an exception that is not a
  \<^verbatim>\<open>PSXRequestError\<close>: it is not caught, TradingView is not called, and when pandas
  raises nothing on the columns read before, it is the \<^verbatim>\<open>KeyError\<close> of a missing
  column.
\<close>

theorem C10_missing_statistics_column_aborts:
  assumes "resolve_start start_date (resolve_end w end_date) period = Inr s"
      and "scrape_historical_data w (symbol self) s (resolve_end w end_date) = Inr df"
      and "\<not> df_empty df"
      and "c \<in> set [''close'', ''high'', ''low'', ''volume'']"
      and "c \<notin> fst ` set (columns (lower_columns df))"
  shows "\<exists>e. get_historical_data w self start_date end_date period use_tradingview True =
               ([Call_scrape_historical_data (symbol self) s (resolve_end w end_date)], Inl e)
             \<and> \<not> is_PSXRequestError e
             \<and> ((\<forall>stat col. statistic_error w stat col (lower_columns df) = None) \<longrightarrow>
                  (\<exists>k \<in> set [''close'', ''high'', ''low'', ''volume''].
                      k \<notin> fst ` set (columns (lower_columns df)) \<and> e = KeyError k))"
proof -
  obtain e where e: "print_statistics w (lower_columns df) = Some e"
    using print_statistics_missing [OF assms(4,5)] by blast
  then have "\<not> is_PSXRequestError e"
    by (rule print_statistics_not_request)
  moreover have "get_historical_data w self start_date end_date period use_tradingview True =
      ([Call_scrape_historical_data (symbol self) s (resolve_end w end_date)], Inl e)"
    using assms(1-3) e \<open>\<not> is_PSXRequestError e\<close>
    by (simp add: get_historical_data_resolved fetch_from_sources_def reader_attempt_def
        df_empty_lower_columns)
  moreover have "(\<forall>stat col. statistic_error w stat col (lower_columns df) = None) \<longrightarrow>
                  (\<exists>k \<in> set [''close'', ''high'', ''low'', ''volume''].
                      k \<notin> fst ` set (columns (lower_columns df)) \<and> e = KeyError k)"
    using print_statistics_KeyError [OF e] by blast
  ultimately show ?thesis by blast
qed

theorem C10_missing_volume_witness:
  "get_historical_data (reader_returns no_volume) (init ''hbl'') None None ''1mo'' True True =
     ([Call_scrape_historical_data ''HBL'' day0 day1], Inl (KeyError ''volume''))"
  using C10_missing_statistics_column_aborts [where start_date = None and w = "reader_returns no_volume"
          and end_date = None and period = "''1mo''" and s = day0 and self = "init ''hbl''"
          and df = no_volume and c = "''volume''" and use_tradingview = True]
  by (auto simp: example_defs one_month_before_end_of_march no_volume_def df_empty_def lower_columns_def
      lower_def lower_char_def)

section \<open>The TradingView branch\<close>

lemma str_nat_1: "str_nat (Suc 0) = ''1''"
  by (simp add: str_nat.simps digit_char_def)

lemma str_nat_2: "str_nat (Suc (Suc 0)) = ''2''"
  by (simp add: str_nat.simps digit_char_def)

lemma enumerate_errors_concat:
  "enumerate_errors msg i errors =
     msg @ concat (map (\<lambda>(k, e). str_nat k @ ''. '' @ e @ newline) (zip [i..<i + length errors] errors))"
proof (induction errors arbitrary: msg i)
  case Nil
  then show ?case by simp
next
  case (Cons e es)
  have "[i..<i + length (e # es)] = i # [Suc i..<Suc i + length es]"
    using upt_conv_Cons [of i "i + Suc (length es)"] by simp
  then show ?case
    by (simp add: Cons.IH)
qed

lemma all_failed_none: "all_failed [] = PSXRequestError header"
  by (simp add: all_failed_def)

lemma all_failed_one: "all_failed [a] = PSXRequestError (header @ ''1. '' @ a @ newline)"
  by (simp add: all_failed_def str_nat_1)

lemma all_failed_two:
  "all_failed [a, b] = PSXRequestError (header @ ''1. '' @ a @ newline @ ''2. '' @ b @ newline)"
  by (simp add: all_failed_def str_nat_1 str_nat_2)

lemma length_six:
  "length xs = 6 \<Longrightarrow> \<exists>a b c d e f. xs = [a, b, c, d, e, f]"
  by (auto simp: length_Suc_conv eval_nat_numeral)

lemma unpack6_long: "6 < length xs \<Longrightarrow> unpack6 xs = Inl (ValueError ''too many values to unpack (expected 6)'')"
  by (induction xs rule: unpack6.induct) auto

lemma tv_rows_six:
  assumes "\<forall>xs. PList xs \<in> set entries \<longrightarrow> 6 \<le> length xs \<longrightarrow> length xs = 6 \<and> (\<exists>t. to_datetime w (xs ! 0) = Inr t)"
  shows "tv_rows w entries data =
           Inr (data @ map (\<lambda>xs. tv_record (projr (to_datetime w (xs ! 0))) (xs ! 1) (xs ! 2) (xs ! 3) (xs ! 4) (xs ! 5))
                        [xs. PList xs \<leftarrow> entries, 6 \<le> length xs])"
  using assms
proof (induction entries arbitrary: data)
  case Nil
  then show ?case by simp
next
  case (Cons entry rest)
  then have IH: "\<And>data. tv_rows w rest data =
           Inr (data @ map (\<lambda>xs. tv_record (projr (to_datetime w (xs ! 0))) (xs ! 1) (xs ! 2) (xs ! 3) (xs ! 4) (xs ! 5))
                        [xs. PList xs \<leftarrow> rest, 6 \<le> length xs])"
    by simp
  show ?case
  proof (cases entry)
    case (PList xs)
    show ?thesis
    proof (cases "6 \<le> length xs")
      case True
      with Cons.prems PList have len: "length xs = 6" and "\<exists>t. to_datetime w (xs ! 0) = Inr t"
        by auto
      then obtain t where t: "to_datetime w (xs ! 0) = Inr t" by blast
      from len obtain a b c d e f where xs: "xs = [a, b, c, d, e, f]"
        using length_six by blast
      with t have ta: "to_datetime w a = Inr t" by simp
      show ?thesis
        by (simp add: PList xs ta IH)
    next
      case False
      then show ?thesis
        by (simp add: PList IH)
    qed
  qed (simp_all add: IH)
qed

lemma DataFrame_tv_records:
  assumes "rows \<noteq> []"
  shows "DataFrame (map (\<lambda>xs. tv_record (D xs) (xs ! 1) (xs ! 2) (xs ! 3) (xs ! 4) (xs ! 5)) rows) =
           \<lparr>index_name = None,
            index = map (\<lambda>i. PInt (int i)) [0..<length rows],
            columns = [(''date'', map D rows), (''open'', map (\<lambda>xs. xs ! 1) rows),
                       (''high'', map (\<lambda>xs. xs ! 2) rows), (''low'', map (\<lambda>xs. xs ! 3) rows),
                       (''close'', map (\<lambda>xs. xs ! 4) rows), (''volume'', map (\<lambda>xs. xs ! 5) rows)]\<rparr>"
  using assms by (cases rows) (simp_all add: DataFrame_def tv_record_def comp_def)

lemma tv_frame_table:
  assumes "map_of d (PStr ''data'') = Some v" and "py_iter v = Inr entries"
      and "\<forall>xs. PList xs \<in> set entries \<longrightarrow> 6 \<le> length xs \<longrightarrow>
                length xs = 6 \<and> (\<exists>t. to_datetime w (xs ! 0) = Inr t)"
      and "rows = [xs. PList xs \<leftarrow> entries, 6 \<le> length xs]" and "rows \<noteq> []"
  shows "tv_frame w (PDict d) =
           Inr (Some \<lparr>index_name = Some ''date'',
                      index = map (\<lambda>xs. projr (to_datetime w (xs ! 0))) rows,
                      columns = [(''open'', map (\<lambda>xs. xs ! 1) rows), (''high'', map (\<lambda>xs. xs ! 2) rows),
                                 (''low'', map (\<lambda>xs. xs ! 3) rows), (''close'', map (\<lambda>xs. xs ! 4) rows),
                                 (''volume'', map (\<lambda>xs. xs ! 5) rows)]\<rparr>)"
proof -
  have "tv_rows w entries [] =
          Inr (map (\<lambda>xs. tv_record (projr (to_datetime w (xs ! 0))) (xs ! 1) (xs ! 2) (xs ! 3) (xs ! 4) (xs ! 5)) rows)"
    using tv_rows_six [OF assms(3), of "[]"] assms(4) by simp
  moreover note DataFrame_tv_records [OF assms(5), of "\<lambda>xs. projr (to_datetime w (xs ! 0))"]
  ultimately show ?thesis
    using assms(1,2,5)
    by (simp add: tv_frame_def df_empty_def set_index_def)
qed

lemma tv_frame_nothing:
  assumes "(\<forall>d. payload \<noteq> PDict d)
         \<or> (\<exists>d. payload = PDict d \<and> map_of d (PStr ''data'') = None)
         \<or> (\<exists>d v entries. payload = PDict d \<and> map_of d (PStr ''data'') = Some v \<and> py_iter v = Inr entries
               \<and> (\<forall>xs. PList xs \<in> set entries \<longrightarrow> length xs < 6))"
  shows "tv_frame w payload = Inr None"
  using assms
proof (elim disjE exE conjE)
  assume "\<forall>d. payload \<noteq> PDict d"
  then show ?thesis by (cases payload) (simp_all add: tv_frame_def)
next
  fix d assume "payload = PDict d" "map_of d (PStr ''data'') = None"
  then show ?thesis by (simp add: tv_frame_def)
next
  fix d v entries
  assume p: "payload = PDict d" "map_of d (PStr ''data'') = Some v" "py_iter v = Inr entries"
    and short: "\<forall>xs. PList xs \<in> set entries \<longrightarrow> length xs < 6"
  have none: "[xs. PList xs \<leftarrow> entries, 6 \<le> length xs] = []"
    using short by (induction entries) (auto split: pyval.splits)
  have "\<forall>xs. PList xs \<in> set entries \<longrightarrow> 6 \<le> length xs \<longrightarrow>
                length xs = 6 \<and> (\<exists>t. to_datetime w (xs ! 0) = Inr t)"
    using short by auto
  then have "tv_rows w entries [] = Inr []"
    using tv_rows_six [of entries w "[]"] none by simp
  with p show ?thesis
    by (simp add: tv_frame_def DataFrame_def df_empty_def)
qed

lemma tv_rows_long_entry:
  "PList xs \<in> set entries \<Longrightarrow> 6 < length xs \<Longrightarrow> \<exists>e. tv_rows w entries data = Inl e"
proof (induction entries arbitrary: data)
  case Nil
  then show ?case by simp
next
  case (Cons entry rest)
  show ?case
  proof (cases "entry = PList xs")
    case True
    with Cons.prems show ?thesis
      by (simp add: unpack6_long)
  next
    case False
    with Cons have "\<And>data. \<exists>e. tv_rows w rest data = Inl e"
      by simp
    then show ?thesis
      by (auto split: pyval.splits sum.splits prod.splits)
  qed
qed

lemma fetch_reader_disabled:
  "fetch_from_sources w self s e use_tradingview False = tradingview_step w self s e use_tradingview [] []"
  by (simp add: fetch_from_sources_def)

lemma fetch_reader_request_error:
  "scrape_historical_data w (symbol self) s e = Inl (PSXRequestError m) \<Longrightarrow>
   fetch_from_sources w self s e use_tradingview True =
     tradingview_step w self s e use_tradingview [Call_scrape_historical_data (symbol self) s e]
       [''PSXDataReader error: '' @ m]"
  by (simp add: fetch_from_sources_def reader_attempt_raises)

lemma fetch_reader_other_error:
  "scrape_historical_data w (symbol self) s e = Inl x \<Longrightarrow> \<not> is_PSXRequestError x \<Longrightarrow>
   fetch_from_sources w self s e use_tradingview True = ([Call_scrape_historical_data (symbol self) s e], Inl x)"
  by (simp add: fetch_from_sources_def reader_attempt_raises)

lemma tradingview_attempt_calls:
  "\<exists>cs. fst (tradingview_attempt w self s e) = Call_TradingViewClient # cs"
  by (simp add: tradingview_attempt_def split: option.splits)

lemma tradingview_step_enabled:
  "tradingview_step w self s e True calls errors =
     (calls @ fst (tradingview_attempt w self s e),
      case snd (tradingview_attempt w self s e) of
        Inr (Some df) \<Rightarrow> Inr df
      | Inr None \<Rightarrow> Inl (all_failed errors)
      | Inl x \<Rightarrow> Inl (all_failed (errors @ [''TradingView error: '' @ str_exn x])))"
  by (simp add: tradingview_step_def split: prod.splits sum.splits option.splits)

lemma tradingview_step_disabled:
  "tradingview_step w self s e False calls errors = (calls, Inl (all_failed errors))"
  by (simp add: tradingview_step_def)

text \<open>
  Claim C4.  With the reader disabled or without data, a TradingView payload whose
  \<open>data\<close> holds at least one list of six or more fields gives the table of those
  lists, read by position as date, open, high, low, close and volume, and the other
  entries are dropped.  The code does not do this for a list of more than six fields:
  the test of line 122 lets it through, the assignment to six names of line 123 raises
  \<^verbatim>\<open>ValueError\<close>, the handler of line 137 records it, and the call ends with the
  composite error instead of a table.
\<close>

theorem C4_seven_field_row_fails:
  "get_historical_data (tradingview_returns (PDict [(PStr ''data'', PList [row7])])) (init ''hbl'')
       None None ''1mo'' True False =
     ([Call_TradingViewClient, Call_tv_get_historical_data ''HBL'' day0 day1],
      Inl (PSXRequestError
             (header @ ''1. TradingView error: too many values to unpack (expected 6)'' @ newline)))"
  by (simp add: get_historical_data_def one_month_before_end_of_march example_defs
      fetch_from_sources_def tradingview_step_def tradingview_attempt_def tv_frame_def row7_def
      all_failed_one)

text \<open>
  The same holds for every payload with such a list, whatever the other entries are.
\<close>

lemma long_row_never_gives_table:
  assumes "resolve_start start_date (resolve_end w end_date) period = Inr s"
      and "new_TradingViewClient w = None"
      and "tv_get_historical_data w (symbol self) s (resolve_end w end_date) = Inr (PDict d)"
      and "map_of d (PStr ''data'') = Some (PList entries)"
      and "PList xs \<in> set entries" and "6 < length xs"
  shows "\<exists>e. snd (get_historical_data w self start_date end_date period True False) =
               Inl (PSXRequestError (header @ ''1. TradingView error: '' @ str_exn e @ newline))"
proof -
  obtain e where "tv_rows w entries [] = Inl e"
    using tv_rows_long_entry [OF assms(5,6)] by blast
  with assms(1-4) show ?thesis
    by (auto simp: get_historical_data_resolved fetch_reader_disabled tradingview_step_enabled
        tradingview_attempt_def tv_frame_def all_failed_one)
qed

text \<open>
  What the branch does deliver: when every list of six or more fields has exactly six
  and a date that converts, the table holds those lists and nothing else, indexed by
  their dates.
\<close>

lemma tradingview_table:
  assumes "resolve_start start_date (resolve_end w end_date) period = Inr s"
      and "\<not> use_psx_reader \<or> (\<exists>m. scrape_historical_data w (symbol self) s (resolve_end w end_date) = Inl (PSXRequestError m))"
      and "new_TradingViewClient w = None"
      and "tv_get_historical_data w (symbol self) s (resolve_end w end_date) = Inr (PDict d)"
      and "map_of d (PStr ''data'') = Some v" and "py_iter v = Inr entries"
      and "\<forall>xs. PList xs \<in> set entries \<longrightarrow> 6 \<le> length xs \<longrightarrow>
                length xs = 6 \<and> (\<exists>t. to_datetime w (xs ! 0) = Inr t)"
      and "rows = [xs. PList xs \<leftarrow> entries, 6 \<le> length xs]" and "rows \<noteq> []"
  shows "snd (get_historical_data w self start_date end_date period True use_psx_reader) =
           Inr \<lparr>index_name = Some ''date'',
                index = map (\<lambda>xs. projr (to_datetime w (xs ! 0))) rows,
                columns = [(''open'', map (\<lambda>xs. xs ! 1) rows), (''high'', map (\<lambda>xs. xs ! 2) rows),
                           (''low'', map (\<lambda>xs. xs ! 3) rows), (''close'', map (\<lambda>xs. xs ! 4) rows),
                           (''volume'', map (\<lambda>xs. xs ! 5) rows)]\<rparr>"
proof -
  note tv = tv_frame_table [OF assms(5-9)]
  show ?thesis
  proof (cases use_psx_reader)
    case False
    then show ?thesis
      using assms(1,3,4) tv
      by (simp add: get_historical_data_resolved fetch_from_sources_def tradingview_step_def
          tradingview_attempt_def)
  next
    case True
    with assms(2) obtain m where "scrape_historical_data w (symbol self) s (resolve_end w end_date) = Inl (PSXRequestError m)"
      by blast
    then have "reader_attempt w self s (resolve_end w end_date) = Inl (PSXRequestError m)"
      by (rule reader_attempt_raises)
    with True show ?thesis
      using assms(1,3,4) tv
      by (simp add: get_historical_data_resolved fetch_from_sources_def tradingview_step_def
          tradingview_attempt_def)
  qed
qed

text \<open>One payload with a row of six fields, a short row and a number.\<close>

lemma tradingview_table_example:
  "get_historical_data (tradingview_returns (PDict [(PStr ''data'', PList [row6, row3, PInt 7])]))
       (init ''hbl'') None None ''1mo'' True True =
     ([Call_scrape_historical_data ''HBL'' day0 day1, Call_TradingViewClient,
       Call_tv_get_historical_data ''HBL'' day0 day1],
      Inr \<lparr>index_name = Some ''date'', index = [PTimestamp day0],
           columns = [(''open'', [PInt 100]), (''high'', [PInt 110]), (''low'', [PInt 95]),
                      (''close'', [PInt 105]), (''volume'', [PInt 5000])]\<rparr>)"
  by (simp add: get_historical_data_def one_month_before_end_of_march example_defs
      fetch_from_sources_def reader_attempt_def tradingview_step_def tradingview_attempt_def
      tv_frame_def row6_def row3_def tv_record_def DataFrame_def set_index_def df_empty_def)

section \<open>The composite error\<close>

lemma reader_attempt_cases:
  assumes "\<forall>df. scrape_historical_data w (symbol self) s e = Inr df \<longrightarrow> \<not> df_empty df"
  shows "(\<exists>m. scrape_historical_data w (symbol self) s e = Inl (PSXRequestError m)
              \<and> reader_attempt w self s e = Inl (PSXRequestError m))
       \<or> (\<exists>x. reader_attempt w self s e = Inl x \<and> \<not> is_PSXRequestError x
              \<and> (\<forall>m. scrape_historical_data w (symbol self) s e \<noteq> Inl (PSXRequestError m)))
       \<or> (\<exists>df. reader_attempt w self s e = Inr df
              \<and> (\<forall>m. scrape_historical_data w (symbol self) s e \<noteq> Inl (PSXRequestError m)))"
proof (cases "scrape_historical_data w (symbol self) s e")
  case (Inl x)
  then show ?thesis
    by (cases x) (simp_all add: reader_attempt_def)
next
  case (Inr df)
  then show ?thesis
    by (auto simp: reader_attempt_def Let_def split: option.splits dest: print_statistics_not_request)
qed

text \<open>
  Claim C5, as amended.  Once the period has resolved, and leaving aside a reader that
  returns an empty table, the call raises the composite \<^verbatim>\<open>PSXRequestError\<close> exactly
  when the reader is disabled or failed with a \<^verbatim>\<open>PSXRequestError\<close>, and TradingView is
  disabled or gave no table.  Its message is the header followed by one line per
  recorded failure, numbered from 1, the reader's before TradingView's.
\<close>

theorem C5_composite_error:
  assumes "resolve_start start_date (resolve_end w end_date) period = Inr s"
      and "use_psx_reader \<longrightarrow>
             (\<forall>df. scrape_historical_data w (symbol self) s (resolve_end w end_date) = Inr df \<longrightarrow> \<not> df_empty df)"
  shows
    "let result = snd (get_historical_data w self start_date end_date period use_tradingview use_psx_reader);
         reader = scrape_historical_data w (symbol self) s (resolve_end w end_date);
         tradingview = snd (tradingview_attempt w self s (resolve_end w end_date));
         errors =
           (if use_psx_reader
            then (case reader of Inl (PSXRequestError m) \<Rightarrow> [''PSXDataReader error: '' @ m] | _ \<Rightarrow> [])
            else [])
           @ (if use_tradingview
              then (case tradingview of Inl x \<Rightarrow> [''TradingView error: '' @ str_exn x] | _ \<Rightarrow> [])
              else []);
         all_failed_or_disabled =
           ((\<not> use_psx_reader \<or> (\<exists>m. reader = Inl (PSXRequestError m)))
            \<and> (\<not> use_tradingview \<or> (\<forall>df. tradingview \<noteq> Inr (Some df))))
     in ((\<exists>msg. result = Inl (PSXRequestError msg)) \<longleftrightarrow> all_failed_or_disabled)
      \<and> (all_failed_or_disabled \<longrightarrow>
           result = Inl (PSXRequestError
             (header @ concat (map (\<lambda>(i, e). str_nat i @ ''. '' @ e @ newline)
                                   (zip [1..<1 + length errors] errors)))))"
proof -
  define e where "e = resolve_end w end_date"
  have g: "get_historical_data w self start_date end_date period use_tradingview use_psx_reader =
             fetch_from_sources w self s e use_tradingview use_psx_reader"
    using assms(1) by (simp add: get_historical_data_resolved e_def)
  have msg: "\<And>errors. all_failed errors =
      PSXRequestError (header @ concat (map (\<lambda>(i, e). str_nat i @ ''. '' @ e @ newline)
                                   (zip [1..<1 + length errors] errors)))"
    by (simp only: all_failed_def enumerate_errors_concat)
  have tv: "\<And>calls errors. snd (tradingview_step w self s e use_tradingview calls errors) =
      (if use_tradingview
       then (case snd (tradingview_attempt w self s e) of
               Inr (Some df) \<Rightarrow> Inr df
             | Inr None \<Rightarrow> Inl (all_failed errors)
             | Inl x \<Rightarrow> Inl (all_failed (errors @ [''TradingView error: '' @ str_exn x])))
       else Inl (all_failed errors))"
    by (simp add: tradingview_step_enabled tradingview_step_disabled)
  show ?thesis
  proof (cases use_psx_reader)
    case False
    then show ?thesis
      unfolding Let_def g e_def [symmetric] fetch_from_sources_def
      by (auto simp: tv msg all_failed_def split: sum.splits option.splits)
  next
    case True
    with assms(2) have ne: "\<forall>df. scrape_historical_data w (symbol self) s e = Inr df \<longrightarrow> \<not> df_empty df"
      by (simp add: e_def)
    from reader_attempt_cases [OF ne] show ?thesis
    proof (elim disjE exE conjE)
      fix m
      assume "scrape_historical_data w (symbol self) s e = Inl (PSXRequestError m)"
        "reader_attempt w self s e = Inl (PSXRequestError m)"
      with True show ?thesis
        unfolding Let_def g e_def [symmetric] fetch_from_sources_def
        by (auto simp: tv msg all_failed_def split: sum.splits option.splits)
    next
      fix x
      assume "reader_attempt w self s e = Inl x" "\<not> is_PSXRequestError x"
        "\<forall>m. scrape_historical_data w (symbol self) s e \<noteq> Inl (PSXRequestError m)"
      with True show ?thesis
        unfolding Let_def g e_def [symmetric] fetch_from_sources_def
        by auto
    next
      fix df
      assume "reader_attempt w self s e = Inr df"
        "\<forall>m. scrape_historical_data w (symbol self) s e \<noteq> Inl (PSXRequestError m)"
      with True show ?thesis
        unfolding Let_def g e_def [symmetric] fetch_from_sources_def
        by auto
    qed
  qed
qed

text \<open>
  As stated the claim fails: with TradingView disabled and a reader that raises another
  kind of exception, every enabled source has been tried and none returned data, and
  the call ends with the reader's exception, not with the composite error.
\<close>

theorem C5_reader_exception_counterexample:
  "get_historical_data (reader_raises (OtherException ''ConnectionError'' ''PSX portal unreachable''))
       (init ''hbl'') None None ''1mo'' False True =
     ([Call_scrape_historical_data ''HBL'' day0 day1],
      Inl (OtherException ''ConnectionError'' ''PSX portal unreachable''))"
  by (simp add: get_historical_data_def one_month_before_end_of_march example_defs
      fetch_from_sources_def reader_attempt_def)

theorem C5_composite_error_witness:
  "snd (get_historical_data offline (init ''hbl'') None None ''1mo'' True True) =
     Inl (PSXRequestError
            (header @ ''1. PSXDataReader error: PSX portal unreachable'' @ newline
                    @ ''2. TradingView error: TradingView unreachable'' @ newline))"
  using C5_composite_error [where start_date = None and w = offline and end_date = None
          and period = "''1mo''" and s = day0 and self = "init ''hbl''"
          and use_tradingview = True and use_psx_reader = True]
  by (simp add: Let_def example_defs one_month_before_end_of_march tradingview_attempt_def
      str_nat_1 str_nat_2 upt_rec [of 1] upt_rec [of 2] upt_rec [of 3])

text \<open>What a source raises in the TradingView branch is what the branch raises.\<close>

lemma tradingview_attempt_raises:
  "new_TradingViewClient w = Some y \<Longrightarrow> snd (tradingview_attempt w self s e) = Inl y"
  "new_TradingViewClient w = None \<Longrightarrow> tv_get_historical_data w (symbol self) s e = Inl y \<Longrightarrow>
     snd (tradingview_attempt w self s e) = Inl y"
  by (simp_all add: tradingview_attempt_def)

text \<open>
  Claim C6.  The two branches catch differently.  A \<^verbatim>\<open>PSXRequestError\<close> of the reader
  is recorded and the call goes on to TradingView; any other exception of the reader
  ends the call as it is, with no further source called.  Every exception raised in
  the TradingView branch is recorded by its text and the call ends with the composite
  error.
\<close>

theorem C6_asymmetric_catching:
  assumes "resolve_start start_date (resolve_end w end_date) period = Inr s"
  shows
    "(scrape_historical_data w (symbol self) s (resolve_end w end_date) = Inl (PSXRequestError m) \<longrightarrow>
        get_historical_data w self start_date end_date period False True =
          ([Call_scrape_historical_data (symbol self) s (resolve_end w end_date)],
           Inl (PSXRequestError (header @ ''1. PSXDataReader error: '' @ m @ newline)))
        \<and> (\<exists>cs. fst (get_historical_data w self start_date end_date period True True) =
                   Call_scrape_historical_data (symbol self) s (resolve_end w end_date)
                     # Call_TradingViewClient # cs))
   \<and> (scrape_historical_data w (symbol self) s (resolve_end w end_date) = Inl x \<and> \<not> is_PSXRequestError x \<longrightarrow>
        get_historical_data w self start_date end_date period use_tradingview True =
          ([Call_scrape_historical_data (symbol self) s (resolve_end w end_date)], Inl x))
   \<and> (snd (tradingview_attempt w self s (resolve_end w end_date)) = Inl y \<longrightarrow>
        snd (get_historical_data w self start_date end_date period True False) =
          Inl (PSXRequestError (header @ ''1. TradingView error: '' @ str_exn y @ newline))
        \<and> (scrape_historical_data w (symbol self) s (resolve_end w end_date) = Inl (PSXRequestError m) \<longrightarrow>
             snd (get_historical_data w self start_date end_date period True True) =
               Inl (PSXRequestError (header @ ''1. PSXDataReader error: '' @ m @ newline
                                       @ ''2. TradingView error: '' @ str_exn y @ newline))))"
proof (intro conjI impI)
  assume r: "scrape_historical_data w (symbol self) s (resolve_end w end_date) = Inl (PSXRequestError m)"
  show "get_historical_data w self start_date end_date period False True =
          ([Call_scrape_historical_data (symbol self) s (resolve_end w end_date)],
           Inl (PSXRequestError (header @ ''1. PSXDataReader error: '' @ m @ newline)))"
    using assms r
    by (simp add: get_historical_data_resolved fetch_reader_request_error tradingview_step_disabled
        all_failed_one)
  show "\<exists>cs. fst (get_historical_data w self start_date end_date period True True) =
                   Call_scrape_historical_data (symbol self) s (resolve_end w end_date)
                     # Call_TradingViewClient # cs"
    using assms r tradingview_attempt_calls [of w self s "resolve_end w end_date"]
    by (auto simp: get_historical_data_resolved fetch_reader_request_error tradingview_step_enabled)
next
  assume "scrape_historical_data w (symbol self) s (resolve_end w end_date) = Inl x \<and> \<not> is_PSXRequestError x"
  then show "get_historical_data w self start_date end_date period use_tradingview True =
          ([Call_scrape_historical_data (symbol self) s (resolve_end w end_date)], Inl x)"
    using assms by (simp add: get_historical_data_resolved fetch_reader_other_error)
next
  assume t: "snd (tradingview_attempt w self s (resolve_end w end_date)) = Inl y"
  show "snd (get_historical_data w self start_date end_date period True False) =
          Inl (PSXRequestError (header @ ''1. TradingView error: '' @ str_exn y @ newline))"
    using assms t
    by (simp add: get_historical_data_resolved fetch_reader_disabled tradingview_step_enabled
        all_failed_one)
  assume r: "scrape_historical_data w (symbol self) s (resolve_end w end_date) = Inl (PSXRequestError m)"
  show "snd (get_historical_data w self start_date end_date period True True) =
               Inl (PSXRequestError (header @ ''1. PSXDataReader error: '' @ m @ newline
                                       @ ''2. TradingView error: '' @ str_exn y @ newline))"
    using assms t r
    by (simp add: get_historical_data_resolved fetch_reader_request_error tradingview_step_enabled
        all_failed_two)
qed

theorem C6_asymmetric_catching_witness:
  "get_historical_data (reader_raises (PSXRequestError ''HTTP 503'')) (init ''hbl'') None None ''1mo'' False True =
     ([Call_scrape_historical_data ''HBL'' day0 day1],
      Inl (PSXRequestError (header @ ''1. PSXDataReader error: HTTP 503'' @ newline)))
   \<and> (\<exists>cs. fst (get_historical_data (reader_raises (PSXRequestError ''HTTP 503'')) (init ''hbl'') None None ''1mo'' True True) =
              Call_scrape_historical_data ''HBL'' day0 day1 # Call_TradingViewClient # cs)
   \<and> get_historical_data (reader_raises (KeyError ''Date'')) (init ''hbl'') None None ''1mo'' True True =
       ([Call_scrape_historical_data ''HBL'' day0 day1], Inl (KeyError ''Date''))
   \<and> snd (get_historical_data (reader_raises (PSXRequestError ''HTTP 503'')) (init ''hbl'') None None ''1mo'' True False) =
       Inl (PSXRequestError (header @ ''1. TradingView error: TradingView unreachable'' @ newline))
   \<and> snd (get_historical_data (reader_raises (PSXRequestError ''HTTP 503'')) (init ''hbl'') None None ''1mo'' True True) =
       Inl (PSXRequestError (header @ ''1. PSXDataReader error: HTTP 503'' @ newline
                               @ ''2. TradingView error: TradingView unreachable'' @ newline))"
  using C6_asymmetric_catching [where start_date = None and w = "reader_raises (PSXRequestError ''HTTP 503'')"
          and end_date = None and period = "''1mo''" and s = day0 and self = "init ''hbl''"
          and m = "''HTTP 503''" and x = "KeyError ''Date''"
          and y = "OtherException ''ConnectionError'' ''TradingView unreachable''" and use_tradingview = True]
        C6_asymmetric_catching [where start_date = None and w = "reader_raises (KeyError ''Date'')"
          and end_date = None and period = "''1mo''" and s = day0 and self = "init ''hbl''"
          and m = "''HTTP 503''" and x = "KeyError ''Date''"
          and y = "OtherException ''ConnectionError'' ''TradingView unreachable''" and use_tradingview = True]
  by (simp add: example_defs one_month_before_end_of_march tradingview_attempt_def)

text \<open>
  Claim C9.  When TradingView answers without raising, but with a payload that is no
  dictionary with a \<open>data\<close> key, or whose entries are all malformed (none at all
  included), nothing is recorded for the attempt: the composite error lists fewer
  entries than sources tried, and none when both sources are disabled.
\<close>

theorem C9_silent_tradingview_miss:
  assumes "resolve_start start_date (resolve_end w end_date) period = Inr s"
      and "new_TradingViewClient w = None"
      and "tv_get_historical_data w (symbol self) s (resolve_end w end_date) = Inr payload"
      and "(\<forall>d. payload \<noteq> PDict d)
         \<or> (\<exists>d. payload = PDict d \<and> map_of d (PStr ''data'') = None)
         \<or> (\<exists>d v entries. payload = PDict d \<and> map_of d (PStr ''data'') = Some v \<and> py_iter v = Inr entries
               \<and> (\<forall>xs. PList xs \<in> set entries \<longrightarrow> length xs < 6))"
  shows "get_historical_data w self start_date end_date period True False =
           ([Call_TradingViewClient, Call_tv_get_historical_data (symbol self) s (resolve_end w end_date)],
            Inl (PSXRequestError header))
       \<and> (scrape_historical_data w (symbol self) s (resolve_end w end_date) = Inl (PSXRequestError m) \<longrightarrow>
            get_historical_data w self start_date end_date period True True =
              ([Call_scrape_historical_data (symbol self) s (resolve_end w end_date),
                Call_TradingViewClient,
                Call_tv_get_historical_data (symbol self) s (resolve_end w end_date)],
               Inl (PSXRequestError (header @ ''1. PSXDataReader error: '' @ m @ newline))))
       \<and> get_historical_data w self start_date end_date period False False =
           ([], Inl (PSXRequestError header))"
proof -
  have "tv_frame w payload = Inr None"
    using assms(4) by (rule tv_frame_nothing)
  with assms(2,3) have "tradingview_attempt w self s (resolve_end w end_date) =
      ([Call_TradingViewClient, Call_tv_get_historical_data (symbol self) s (resolve_end w end_date)], Inr None)"
    by (simp add: tradingview_attempt_def)
  with assms(1) show ?thesis
    by (simp add: get_historical_data_resolved fetch_reader_disabled fetch_reader_request_error
        tradingview_step_enabled tradingview_step_disabled all_failed_none all_failed_one)
qed

theorem C9_silent_tradingview_miss_witness:
  "get_historical_data (tradingview_returns (PDict [(PStr ''data'', PList [row3, PInt 7])])) (init ''hbl'')
       None None ''1mo'' True False =
     ([Call_TradingViewClient, Call_tv_get_historical_data ''HBL'' day0 day1], Inl (PSXRequestError header))
   \<and> get_historical_data (tradingview_returns (PDict [(PStr ''data'', PList [row3, PInt 7])])) (init ''hbl'')
       None None ''1mo'' True True =
     ([Call_scrape_historical_data ''HBL'' day0 day1, Call_TradingViewClient,
       Call_tv_get_historical_data ''HBL'' day0 day1],
      Inl (PSXRequestError (header @ ''1. PSXDataReader error: PSX portal unreachable'' @ newline)))
   \<and> get_historical_data (tradingview_returns (PDict [(PStr ''data'', PList [row3, PInt 7])])) (init ''hbl'')
       None None ''1mo'' False False =
     ([], Inl (PSXRequestError header))"
  using C9_silent_tradingview_miss [where start_date = None
          and w = "tradingview_returns (PDict [(PStr ''data'', PList [row3, PInt 7])])"
          and end_date = None and period = "''1mo''" and s = day0 and self = "init ''hbl''"
          and payload = "PDict [(PStr ''data'', PList [row3, PInt 7])]"
          and m = "''PSX portal unreachable''"]
  by (simp add: example_defs one_month_before_end_of_march row3_def)

section \<open>Intraday data\<close>

text \<open>
  Claim C7.  What the reader returns is returned as it is.  When the reader raises and
  the older source answers with a dictionary, the result has one row: its price and
  volume are the dictionary's (\<^verbatim>\<open>None\<close> for a missing key) and its index is the
  clock's reading, not a timestamp of the data.
\<close>

theorem C7_intraday_sources:
  "(psx_reader_get_intraday_data w (symbol self) = Inr df \<longrightarrow>
      get_intraday_data w self = ([Call_psx_reader_get_intraday_data (symbol self)], Inr df))
   \<and> (psx_reader_get_intraday_data w (symbol self) = Inl e \<and> fetch_intraday_data w (symbol self) = Inr (PDict d) \<longrightarrow>
        get_intraday_data w self =
          ([Call_psx_reader_get_intraday_data (symbol self), Call_fetch_intraday_data (symbol self)],
           Inr \<lparr>index_name = Some ''timestamp'',
                index = [PTimestamp (now w)],
                columns = [(''price'', [case map_of d (PStr ''price'') of None \<Rightarrow> PNone | Some v \<Rightarrow> v]),
                           (''volume'', [case map_of d (PStr ''volume'') of None \<Rightarrow> PNone | Some v \<Rightarrow> v])]\<rparr>))"
  by (simp add: get_intraday_data_def intraday_fallback_def DataFrame_def set_index_def)

theorem C7_intraday_sources_witness:
  "get_intraday_data (reader_intraday_returns ticks) (init ''hbl'') =
     ([Call_psx_reader_get_intraday_data ''HBL''], Inr ticks)
   \<and> get_intraday_data (intraday_returns snapshot) (init ''hbl'') =
       ([Call_psx_reader_get_intraday_data ''HBL'', Call_fetch_intraday_data ''HBL''],
        Inr \<lparr>index_name = Some ''timestamp'', index = [PTimestamp day1],
             columns = [(''price'', [PInt 105]), (''volume'', [PInt 5000])]\<rparr>)"
  using C7_intraday_sources [where w = "reader_intraday_returns ticks" and self = "init ''hbl''" and df = ticks]
        C7_intraday_sources [where w = "intraday_returns snapshot" and self = "init ''hbl''"
          and e = "PSXRequestError ''PSX portal unreachable''"
          and d = "[(PStr ''timestamp'', PTimestamp day0), (PStr ''price'', PInt 105), (PStr ''volume'', PInt 5000)]"]
  by (simp add: example_defs snapshot_def)

text \<open>
  Claim C8.  When both intraday sources raise, the call raises a \<^verbatim>\<open>PSXRequestError\<close>
  whose message carries the text of the second exception, not of the first.
\<close>

theorem C8_intraday_both_fail:
  assumes "psx_reader_get_intraday_data w (symbol self) = Inl e"
      and "fetch_intraday_data w (symbol self) = Inl e2"
  shows "get_intraday_data w self =
           ([Call_psx_reader_get_intraday_data (symbol self), Call_fetch_intraday_data (symbol self)],
            Inl (PSXRequestError (''Failed to fetch intraday data: '' @ str_exn e2)))"
  using assms by (simp add: get_intraday_data_def intraday_fallback_def)

theorem C8_intraday_both_fail_witness:
  "get_intraday_data offline (init ''hbl'') =
     ([Call_psx_reader_get_intraday_data ''HBL'', Call_fetch_intraday_data ''HBL''],
      Inl (PSXRequestError ''Failed to fetch intraday data: Connection refused''))"
  using C8_intraday_both_fail [where w = offline and self = "init ''hbl''"
          and e = "PSXRequestError ''PSX portal unreachable''"
          and ?e2.0 = "OtherException ''ConnectionError'' ''Connection refused''"]
  by (simp add: example_defs)

text \<open>A payload of the older source that is no dictionary ends the same way.\<close>

lemma intraday_payload_without_get:
  assumes "psx_reader_get_intraday_data w (symbol self) = Inl e"
      and "fetch_intraday_data w (symbol self) = Inr v" and "\<forall>d. v \<noteq> PDict d"
  shows "\<exists>m. snd (get_intraday_data w self) = Inl (PSXRequestError (''Failed to fetch intraday data: '' @ m))"
  using assms by (cases v) (simp_all add: get_intraday_data_def intraday_fallback_def)

end
